theory Spec2Isabelle
  imports Main "HOL-Library.AList"
begin

section \<open>The OAuth error classes of server/auth/errors.ts\<close>

text \<open>
  The file declares a base class \<open>OAuthError\<close>, sixteen subclasses whose only member is a
  static \<open>errorCode\<close> string, a subclass \<open>CustomOAuthError\<close> that carries its code in an
  instance field, and the table \<open>OAUTH_ERRORS\<close> from the sixteen static codes to their
  classes.
\<close>

subsection \<open>Classes\<close>

text \<open>The sixteen subclasses that only assign \<open>static errorCode\<close>, in source order.\<close>

datatype variant =
    InvalidRequestError
  | InvalidClientError
  | InvalidGrantError
  | UnauthorizedClientError
  | UnsupportedGrantTypeError
  | InvalidScopeError
  | AccessDeniedError
  | ServerError
  | TemporarilyUnavailableError
  | UnsupportedResponseTypeError
  | UnsupportedTokenTypeError
  | InvalidTokenError
  | MethodNotAllowedError
  | TooManyRequestsError
  | InvalidClientMetadataError
  | InsufficientScopeError

text \<open>
  Every class of the file: the base class (it is not abstract, so it can be instantiated),
  the sixteen subclasses, and \<open>CustomOAuthError\<close>.
\<close>

datatype cls = OAuthError | Standard variant | CustomOAuthError

text \<open>The initialiser of \<open>static errorCode\<close> in each of the sixteen subclasses.\<close>

fun variant_errorCode :: "variant \<Rightarrow> string" where
  "variant_errorCode InvalidRequestError = ''invalid_request''"
| "variant_errorCode InvalidClientError = ''invalid_client''"
| "variant_errorCode InvalidGrantError = ''invalid_grant''"
| "variant_errorCode UnauthorizedClientError = ''unauthorized_client''"
| "variant_errorCode UnsupportedGrantTypeError = ''unsupported_grant_type''"
| "variant_errorCode InvalidScopeError = ''invalid_scope''"
| "variant_errorCode AccessDeniedError = ''access_denied''"
| "variant_errorCode ServerError = ''server_error''"
| "variant_errorCode TemporarilyUnavailableError = ''temporarily_unavailable''"
| "variant_errorCode UnsupportedResponseTypeError = ''unsupported_response_type''"
| "variant_errorCode UnsupportedTokenTypeError = ''unsupported_token_type''"
| "variant_errorCode InvalidTokenError = ''invalid_token''"
| "variant_errorCode MethodNotAllowedError = ''method_not_allowed''"
| "variant_errorCode TooManyRequestsError = ''too_many_requests''"
| "variant_errorCode InvalidClientMetadataError = ''invalid_client_metadata''"
| "variant_errorCode InsufficientScopeError = ''insufficient_scope''"

text \<open>
  Reading the static property \<open>C.errorCode\<close> of a class \<open>C\<close>. A value of \<open>None\<close> is
  JavaScript's \<open>undefined\<close>: the base class declares \<open>static errorCode: string\<close> with
  no initialiser, and \<open>CustomOAuthError\<close> assigns none either, so it inherits the base
  class's.
\<close>

fun static_errorCode :: "cls \<Rightarrow> string option" where
  "static_errorCode OAuthError = None"
| "static_errorCode (Standard V) = Some (variant_errorCode V)"
| "static_errorCode CustomOAuthError = None"

text \<open>The name of a class, which the constructor copies from \<open>this.constructor.name\<close>.\<close>

fun variant_name :: "variant \<Rightarrow> string" where
  "variant_name InvalidRequestError = ''InvalidRequestError''"
| "variant_name InvalidClientError = ''InvalidClientError''"
| "variant_name InvalidGrantError = ''InvalidGrantError''"
| "variant_name UnauthorizedClientError = ''UnauthorizedClientError''"
| "variant_name UnsupportedGrantTypeError = ''UnsupportedGrantTypeError''"
| "variant_name InvalidScopeError = ''InvalidScopeError''"
| "variant_name AccessDeniedError = ''AccessDeniedError''"
| "variant_name ServerError = ''ServerError''"
| "variant_name TemporarilyUnavailableError = ''TemporarilyUnavailableError''"
| "variant_name UnsupportedResponseTypeError = ''UnsupportedResponseTypeError''"
| "variant_name UnsupportedTokenTypeError = ''UnsupportedTokenTypeError''"
| "variant_name InvalidTokenError = ''InvalidTokenError''"
| "variant_name MethodNotAllowedError = ''MethodNotAllowedError''"
| "variant_name TooManyRequestsError = ''TooManyRequestsError''"
| "variant_name InvalidClientMetadataError = ''InvalidClientMetadataError''"
| "variant_name InsufficientScopeError = ''InsufficientScopeError''"

fun class_name :: "cls \<Rightarrow> string" where
  "class_name OAuthError = ''OAuthError''"
| "class_name (Standard V) = variant_name V"
| "class_name CustomOAuthError = ''CustomOAuthError''"

subsection \<open>Instances and the wire object\<close>

text \<open>
  An instance: \<open>ctor\<close> is \<open>this.constructor\<close>, \<open>name\<close> and \<open>message\<close> are the fields of
  \<open>Error\<close>, \<open>errorUri\<close> is the optional constructor parameter (\<open>None\<close> when it is omitted
  or \<open>undefined\<close>), and \<open>customErrorCode\<close> is the private field that only
  \<open>CustomOAuthError\<close> has (\<open>None\<close> on every other instance).
\<close>

record oauth_error =
  ctor :: cls
  name :: string
  message :: string
  errorUri :: "string option"
  customErrorCode :: "string option"

text \<open>
  The object that \<open>toResponseObject\<close> builds. \<open>error\<close> holds what \<open>this.errorCode\<close>
  evaluates to, a string or \<open>undefined\<close> (\<open>None\<close>); \<open>error_uri = None\<close> says that the
  object has no \<open>error_uri\<close> key.
\<close>

record oauth_error_response =
  error :: "string option"
  error_description :: string
  error_uri :: "string option"

text \<open>
  JavaScript's truthiness of a value of type \<open>string | undefined\<close>, as the condition of
  \<open>if (this.errorUri)\<close> evaluates it: \<open>undefined\<close> and the empty string are falsy.
\<close>

fun truthy :: "string option \<Rightarrow> bool" where
  "truthy None = False"
| "truthy (Some s) = (s \<noteq> [])"

subsection \<open>Constructors\<close>

text \<open>
  The constructor of the base class, run for an instance of class \<open>C\<close>: \<open>super(message)\<close>
  stores the message, the parameter property stores \<open>errorUri\<close>, and the name is the
  class's.
\<close>

definition OAuthError_constructor :: "cls \<Rightarrow> string \<Rightarrow> string option \<Rightarrow> oauth_error" where
  "OAuthError_constructor C msg uri =
     \<lparr>ctor = C, name = class_name C, message = msg, errorUri = uri, customErrorCode = None\<rparr>"

text \<open>\<open>new OAuthError(message, errorUri)\<close>.\<close>

definition new_OAuthError :: "string \<Rightarrow> string option \<Rightarrow> oauth_error" where
  "new_OAuthError msg uri = OAuthError_constructor OAuthError msg uri"

text \<open>
  \<open>new V(message, errorUri)\<close> for one of the sixteen subclasses, which declare no
  constructor and so pass their arguments to the base class's.
\<close>

definition new_standard :: "variant \<Rightarrow> string \<Rightarrow> string option \<Rightarrow> oauth_error" where
  "new_standard V msg uri = OAuthError_constructor (Standard V) msg uri"

text \<open>
  \<open>new CustomOAuthError(customErrorCode, message, errorUri)\<close>: the base constructor,
  then the parameter property \<open>customErrorCode\<close>.
\<close>

definition new_CustomOAuthError :: "string \<Rightarrow> string \<Rightarrow> string option \<Rightarrow> oauth_error" where
  "new_CustomOAuthError code msg uri =
     (OAuthError_constructor CustomOAuthError msg uri)\<lparr>customErrorCode := Some code\<rparr>"

subsection \<open>Methods\<close>

text \<open>
  A method is a function from the instance it is called on to its result and the
  instance after the call, so that what a call does to \<open>this\<close> is part of the model.
\<close>

text \<open>The getter of the base class: \<open>this.constructor.errorCode\<close>.\<close>

definition OAuthError_errorCode :: "oauth_error \<Rightarrow> string option \<times> oauth_error" where
  "OAuthError_errorCode this = (static_errorCode (ctor this), this)"

text \<open>The getter that \<open>CustomOAuthError\<close> overrides it with: \<open>this.customErrorCode\<close>.\<close>

definition CustomOAuthError_errorCode :: "oauth_error \<Rightarrow> string option \<times> oauth_error" where
  "CustomOAuthError_errorCode this = (customErrorCode this, this)"

text \<open>\<open>this.errorCode\<close>, dispatched on the class of the instance.\<close>

definition errorCode :: "oauth_error \<Rightarrow> string option \<times> oauth_error" where
  "errorCode this =
     (if ctor this = CustomOAuthError then CustomOAuthError_errorCode this
      else OAuthError_errorCode this)"

text \<open>
  \<open>toResponseObject\<close>: a fresh object with \<open>error\<close> and \<open>error_description\<close>, to which
  \<open>error_uri\<close> is added when \<open>this.errorUri\<close> is truthy.
\<close>

definition toResponseObject :: "oauth_error \<Rightarrow> oauth_error_response \<times> oauth_error" where
  "toResponseObject this =
     (let (code, this1) = errorCode this;
          response = \<lparr>error = code, error_description = message this1, error_uri = None\<rparr>;
          response' = (if truthy (errorUri this1)
                       then response\<lparr>error_uri := errorUri this1\<rparr>
                       else response)
      in (response', this1))"

subsection \<open>The table \<open>OAUTH_ERRORS\<close>\<close>

text \<open>
  An object literal with computed keys, as the list of its own properties in insertion
  order: each entry defines its key, and a key that is already there keeps its place and
  takes the new value.
\<close>

definition object_literal :: "('k \<times> 'v) list \<Rightarrow> ('k \<times> 'v) list" where
  "object_literal es = fold (\<lambda>(k, v). AList.update k v) es []"

definition OAUTH_ERRORS :: "(string \<times> variant) list" where
  "OAUTH_ERRORS = object_literal
     [(variant_errorCode InvalidRequestError, InvalidRequestError),
      (variant_errorCode InvalidClientError, InvalidClientError),
      (variant_errorCode InvalidGrantError, InvalidGrantError),
      (variant_errorCode UnauthorizedClientError, UnauthorizedClientError),
      (variant_errorCode UnsupportedGrantTypeError, UnsupportedGrantTypeError),
      (variant_errorCode InvalidScopeError, InvalidScopeError),
      (variant_errorCode AccessDeniedError, AccessDeniedError),
      (variant_errorCode ServerError, ServerError),
      (variant_errorCode TemporarilyUnavailableError, TemporarilyUnavailableError),
      (variant_errorCode UnsupportedResponseTypeError, UnsupportedResponseTypeError),
      (variant_errorCode UnsupportedTokenTypeError, UnsupportedTokenTypeError),
      (variant_errorCode InvalidTokenError, InvalidTokenError),
      (variant_errorCode MethodNotAllowedError, MethodNotAllowedError),
      (variant_errorCode TooManyRequestsError, TooManyRequestsError),
      (variant_errorCode InvalidClientMetadataError, InvalidClientMetadataError),
      (variant_errorCode InsufficientScopeError, InsufficientScopeError)]"

text \<open>
  The table is a plain object literal, so its prototype is \<open>Object.prototype\<close>, and a
  read by key that finds no own property goes on to the prototype. These are the
  property names that the language defines on \<open>Object.prototype\<close> (ECMAScript, the
  properties of the Object prototype object and its legacy accessors); each of them
  reads as a function or an object, never as \<open>undefined\<close>. They belong to the language,
  not to the file.
\<close>

definition Object_prototype_keys :: "string list" where
  "Object_prototype_keys =
     [''constructor'', ''hasOwnProperty'', ''isPrototypeOf'', ''propertyIsEnumerable'',
      ''toLocaleString'', ''toString'', ''valueOf'', ''__proto__'',
      ''__defineGetter__'', ''__defineSetter__'', ''__lookupGetter__'',
      ''__lookupSetter__'']"

text \<open>
  What a read of the table by key can evaluate to: one of the sixteen classes, from an
  own entry, or the member of \<open>Object.prototype\<close> of that name.
\<close>

datatype registry_value = ErrorClass variant | ObjectPrototypeMember string

text \<open>
  The read \<open>OAUTH_ERRORS[code]\<close>: the own property of that name if there is one, else
  the property inherited from \<open>Object.prototype\<close> if there is one, else \<open>undefined\<close>
  (\<open>None\<close>). A property read of this object does not throw. The file exports the table
  and performs no read itself; this is the read as the language evaluates it on the
  exported object.
\<close>

definition lookup :: "string \<Rightarrow> registry_value option" where
  "lookup code =
     (case map_of OAUTH_ERRORS code of
        Some V \<Rightarrow> Some (ErrorClass V)
      | None \<Rightarrow>
          (if code \<in> set Object_prototype_keys then Some (ObjectPrototypeMember code)
           else None))"

text \<open>
  Modelled from the spec: parsing a wire object (section 4.4), which is done by the
  callers of the file and is not part of the source at hand. The \<open>error\<close> field is
  looked up; when the read yields one of the sixteen classes, that class is constructed
  from \<open>error_description\<close> and \<open>error_uri\<close>; on a miss the result is absent and the
  caller decides. A member of \<open>Object.prototype\<close> is not a class of the file, so no
  condition is reconstructed from it either (what a caller's \<open>new\<close> would do with such a
  value is not modelled).
\<close>

definition reconstruct :: "oauth_error_response \<Rightarrow> oauth_error option" where
  "reconstruct r =
     (case error r of
        None \<Rightarrow> None
      | Some code \<Rightarrow>
          (case lookup code of
             None \<Rightarrow> None
           | Some (ErrorClass V) \<Rightarrow>
               Some (new_standard V (error_description r) (error_uri r))
           | Some (ObjectPrototypeMember n) \<Rightarrow> None))"

section \<open>Basic facts\<close>

lemma variant_UNIV:
  "(UNIV :: variant set) =
     {InvalidRequestError, InvalidClientError, InvalidGrantError, UnauthorizedClientError,
      UnsupportedGrantTypeError, InvalidScopeError, AccessDeniedError, ServerError,
      TemporarilyUnavailableError, UnsupportedResponseTypeError, UnsupportedTokenTypeError,
      InvalidTokenError, MethodNotAllowedError, TooManyRequestsError,
      InvalidClientMetadataError, InsufficientScopeError}"
proof -
  have "V \<in> {InvalidRequestError, InvalidClientError, InvalidGrantError,
      UnauthorizedClientError, UnsupportedGrantTypeError, InvalidScopeError,
      AccessDeniedError, ServerError, TemporarilyUnavailableError,
      UnsupportedResponseTypeError, UnsupportedTokenTypeError, InvalidTokenError,
      MethodNotAllowedError, TooManyRequestsError, InvalidClientMetadataError,
      InsufficientScopeError}" for V
    by (cases V) simp_all
  then show ?thesis by blast
qed

lemma OAUTH_ERRORS_entries:
  "OAUTH_ERRORS =
     [(''invalid_request'', InvalidRequestError),
      (''invalid_client'', InvalidClientError),
      (''invalid_grant'', InvalidGrantError),
      (''unauthorized_client'', UnauthorizedClientError),
      (''unsupported_grant_type'', UnsupportedGrantTypeError),
      (''invalid_scope'', InvalidScopeError),
      (''access_denied'', AccessDeniedError),
      (''server_error'', ServerError),
      (''temporarily_unavailable'', TemporarilyUnavailableError),
      (''unsupported_response_type'', UnsupportedResponseTypeError),
      (''unsupported_token_type'', UnsupportedTokenTypeError),
      (''invalid_token'', InvalidTokenError),
      (''method_not_allowed'', MethodNotAllowedError),
      (''too_many_requests'', TooManyRequestsError),
      (''invalid_client_metadata'', InvalidClientMetadataError),
      (''insufficient_scope'', InsufficientScopeError)]"
  by (simp add: OAUTH_ERRORS_def object_literal_def)

lemma variant_errorCode_range: "range variant_errorCode = fst ` set OAUTH_ERRORS"
  by (simp add: variant_UNIV OAUTH_ERRORS_entries)

lemma lookup_variant_errorCode: "lookup (variant_errorCode V) = Some (ErrorClass V)"
  by (cases V) (simp_all add: lookup_def OAUTH_ERRORS_entries)


text \<open>What the constructors store.\<close>

lemma message_new_standard: "message (new_standard V m u) = m"
  and errorUri_new_standard: "errorUri (new_standard V m u) = u"
  by (simp_all add: new_standard_def OAuthError_constructor_def)

lemma message_new_CustomOAuthError: "message (new_CustomOAuthError c m u) = m"
  and errorUri_new_CustomOAuthError: "errorUri (new_CustomOAuthError c m u) = u"
  by (simp_all add: new_CustomOAuthError_def OAuthError_constructor_def)

text \<open>What the getter returns, by class, and that it returns the instance as it was.\<close>

lemma errorCode_snd: "snd (errorCode e) = e"
  by (simp add: errorCode_def CustomOAuthError_errorCode_def OAuthError_errorCode_def)

lemma errorCode_new_standard:
  "fst (errorCode (new_standard V m u)) = Some (variant_errorCode V)"
  by (simp add: errorCode_def OAuthError_errorCode_def new_standard_def
      OAuthError_constructor_def)

lemma errorCode_new_CustomOAuthError:
  "fst (errorCode (new_CustomOAuthError c m u)) = Some c"
  by (simp add: errorCode_def CustomOAuthError_errorCode_def new_CustomOAuthError_def
      OAuthError_constructor_def)

lemma errorCode_new_OAuthError: "fst (errorCode (new_OAuthError m u)) = None"
  by (simp add: errorCode_def OAuthError_errorCode_def new_OAuthError_def
      OAuthError_constructor_def)

text \<open>The serializer, field by field.\<close>

lemma toResponseObject_fst:
  "fst (toResponseObject e) =
     \<lparr>error = fst (errorCode e), error_description = message e,
      error_uri = (if truthy (errorUri e) then errorUri e else None)\<rparr>"
  by (simp add: toResponseObject_def Let_def split_beta errorCode_snd)

lemma toResponseObject_snd: "snd (toResponseObject e) = e"
  by (simp add: toResponseObject_def Let_def split_beta errorCode_snd)

section \<open>The claims\<close>

text \<open>
  C1: for each of the sixteen subclasses \<open>V\<close>, every message \<open>m\<close> and every optional uri
  \<open>u\<close>, the response object of \<open>new V(m, u)\<close> has \<open>error\<close> equal to \<open>V\<close>'s static code
  and \<open>error_description\<close> equal to \<open>m\<close>.
\<close>

theorem standard_response_code_and_description:
  "error (fst (toResponseObject (new_standard V m u))) = Some (variant_errorCode V)
   \<and> error_description (fst (toResponseObject (new_standard V m u))) = m"
  by (simp add: toResponseObject_fst errorCode_new_standard message_new_standard)

text \<open>
  C2: round trip. Serializing \<open>new V(m, u)\<close>, looking the response's \<open>error\<close> up in the
  table, constructing the class found from the response's \<open>error_description\<close> and
  \<open>error_uri\<close>, and serializing again gives the first response object back.
\<close>

theorem standard_response_round_trip:
  "map_option (\<lambda>e. fst (toResponseObject e))
     (reconstruct (fst (toResponseObject (new_standard V m u))))
   = Some (fst (toResponseObject (new_standard V m u)))"
  by (simp add: reconstruct_def toResponseObject_fst errorCode_new_standard
      lookup_variant_errorCode message_new_standard errorUri_new_standard)

text \<open>
  C3: for each of the sixteen subclasses \<open>V\<close>, looking \<open>V\<close>'s static code up in the table
  finds a class, and an instance of that class, whatever its message and uri, has
  \<open>V\<close>'s code as its \<open>errorCode\<close>.
\<close>

theorem lookup_standard_code_present:
  "\<exists>W. lookup (variant_errorCode V) = Some (ErrorClass W)
       \<and> fst (errorCode (new_standard W m u)) = Some (variant_errorCode V)"
  by (simp add: lookup_variant_errorCode errorCode_new_standard)




text \<open>
  C5, as the claim states it: the response has an \<open>error_uri\<close> key if and only if a uri
  was supplied at construction. It fails for the empty string, which is supplied but
  falsy, so that \<open>if (this.errorUri)\<close> skips the assignment.
\<close>

theorem error_uri_iff_supplied_counterexample:
  "\<not> (error_uri (fst (toResponseObject
          (new_standard InvalidRequestError ''bad request'' (Some '''')))) \<noteq> None
      \<longleftrightarrow> Some '''' \<noteq> (None :: string option))"
  by (simp add: toResponseObject_fst errorUri_new_standard)

text \<open>
  C5, amended: for every condition, standard or custom, the response has an \<open>error_uri\<close>
  key if and only if a non-empty uri was supplied at construction, and then its value
  is that uri; when the uri was omitted or is the empty string, the key is absent.
\<close>

theorem error_uri_iff_nonempty_supplied:
  "error_uri (fst (toResponseObject (new_standard V m u)))
     = (if u = Some '''' then None else u)
   \<and> error_uri (fst (toResponseObject (new_CustomOAuthError c m u)))
     = (if u = Some '''' then None else u)"
  by (cases u)
    (simp_all add: toResponseObject_fst errorUri_new_standard errorUri_new_CustomOAuthError)

text \<open>
  C6: the sixteen static codes are pairwise distinct (there are sixteen different
  strings among them), and the table is a bijection between them and the sixteen
  subclasses: it has sixteen entries, no key occurs twice, its keys are exactly the
  sixteen codes, and no class occurs twice among its values, which are all sixteen.
\<close>

theorem standard_codes_distinct_registry_bijective:
  "card (range variant_errorCode) = 16
   \<and> length OAUTH_ERRORS = 16
   \<and> distinct (map fst OAUTH_ERRORS)
   \<and> set (map fst OAUTH_ERRORS) = range variant_errorCode
   \<and> distinct (map snd OAUTH_ERRORS)
   \<and> set (map snd OAUTH_ERRORS) = UNIV"
  by (simp add: variant_errorCode_range) (simp add: OAUTH_ERRORS_entries variant_UNIV)

text \<open>
  C7: for every string \<open>c\<close>, message \<open>m\<close> and optional uri \<open>u\<close>, the instance
  \<open>new CustomOAuthError(c, m, u)\<close> has \<open>errorCode\<close> equal to \<open>c\<close>, and so has the \<open>error\<close>
  field of its response object.
\<close>

theorem custom_code_verbatim:
  "fst (errorCode (new_CustomOAuthError c m u)) = Some c
   \<and> error (fst (toResponseObject (new_CustomOAuthError c m u))) = Some c"
  by (simp add: toResponseObject_fst errorCode_new_CustomOAuthError)

text \<open>
  C8: constructing a standard or a custom condition from a string message yields an
  instance that holds that message (the constructors have no failing branch), and its
  response object is well formed: \<open>error\<close> is a string, not \<open>undefined\<close>;
  \<open>error_description\<close> is the message, a string; \<open>error_uri\<close> is a string or absent
  by its type.
\<close>

theorem conditions_serialize_well_formed:
  "message (new_standard V m u) = m
   \<and> message (new_CustomOAuthError c m u) = m
   \<and> error (fst (toResponseObject (new_standard V m u))) \<noteq> None
   \<and> error_description (fst (toResponseObject (new_standard V m u))) = m
   \<and> error (fst (toResponseObject (new_CustomOAuthError c m u))) \<noteq> None
   \<and> error_description (fst (toResponseObject (new_CustomOAuthError c m u))) = m"
  by (simp add: toResponseObject_fst errorCode_new_standard errorCode_new_CustomOAuthError
      message_new_standard message_new_CustomOAuthError)

text \<open>
  C9: reading \<open>errorCode\<close> or calling \<open>toResponseObject\<close> leaves the instance as it
  was, in every field, and a second call on the instance that the first one leaves
  returns the same result.
\<close>

theorem methods_leave_instance_unchanged:
  "snd (errorCode e) = e
   \<and> snd (toResponseObject e) = e
   \<and> fst (errorCode (snd (errorCode e))) = fst (errorCode e)
   \<and> fst (errorCode (snd (toResponseObject e))) = fst (errorCode e)
   \<and> fst (toResponseObject (snd (toResponseObject e))) = fst (toResponseObject e)
   \<and> fst (toResponseObject (snd (errorCode e))) = fst (toResponseObject e)"
  by (simp add: errorCode_snd toResponseObject_snd)

text \<open>
  C10: the base class's static \<open>errorCode\<close> is declared and never assigned, so an
  instance made by \<open>new OAuthError(m, u)\<close> has an undefined \<open>errorCode\<close>, and the
  \<open>error\<close> field of its response object is not a string.
\<close>

theorem base_class_code_undefined:
  "static_errorCode OAuthError = None
   \<and> fst (errorCode (new_OAuthError m u)) = None
   \<and> error (fst (toResponseObject (new_OAuthError m u))) = None"
  by (simp add: toResponseObject_fst errorCode_new_OAuthError)

end
